theory Spec2Isabelle
  imports Main "HOL-Library.Log_Nat"
begin

section \<open>Luminosity calibration with distance priors: the driver script\<close>

text \<open>
  A shallow embedding of \<^verbatim>\<open>luminosity_inference_distance_prior.py\<close>: the naive estimator
  \<^verbatim>\<open>naive_lum_estimate\<close> and the driver \<^verbatim>\<open>run_luminosity_inference\<close>.

  The script computes on IEEE-754 binary64 numbers (Python floats and numpy float64 arrays).
  Division and comparison decide which stars are selected and whether the interpolation of
  the Lutz-Kelker table raises, so the four basic operations and the comparisons are
  modelled bit-exactly (round to nearest, ties to even, with signed zeros, infinities and
  NaN). Functions of the numerical libraries whose results are only passed on (the
  logarithm, the spline's value inside its range, mean, standard deviation, number
  formatting) are parameters of the model, and so are the results of the effectful
  external calls (the simulated survey, the random draws, the sampler's fit). The
  exceptions that the script's own values can set off are results of the model: Python's
  division by zero and missing key, numpy's checks of shapes, indices and of the range
  and size of a random draw, SciPy's check of the interpolation range. Beyond these an
  external call is taken to return. Arrays are one-dimensional.
\<close>

subsection \<open>Binary64 arithmetic\<close>

text \<open>
  A finite double is the rational it denotes; \<open>Fin 0\<close> is \<open>+0.0\<close> and \<open>NegZero\<close> is
  \<open>-0.0\<close>.
\<close>

datatype f64 = Fin rat | NegZero | PInf | NInf | NaN

fun is_nan :: "f64 \<Rightarrow> bool" where
  "is_nan NaN = True"
| "is_nan _ = False"

fun is_inf :: "f64 \<Rightarrow> bool" where
  "is_inf PInf = True"
| "is_inf NInf = True"
| "is_inf _ = False"

fun is_zero :: "f64 \<Rightarrow> bool" where
  "is_zero (Fin r) = (r = 0)"
| "is_zero NegZero = True"
| "is_zero _ = False"

fun sign_bit :: "f64 \<Rightarrow> bool" where
  "sign_bit (Fin r) = (r < 0)"
| "sign_bit NegZero = True"
| "sign_bit NInf = True"
| "sign_bit _ = False"

fun fval :: "f64 \<Rightarrow> rat" where
  "fval (Fin r) = r"
| "fval _ = 0"

definition signed_inf :: "bool \<Rightarrow> f64" where
  "signed_inf s = (if s then NInf else PInf)"

definition signed_zero :: "bool \<Rightarrow> f64" where
  "signed_zero s = (if s then NegZero else Fin 0)"

text \<open>The exponent of a positive rational: \<open>2 ^ floor_log2 q \<le> q < 2 ^ (floor_log2 q + 1)\<close>.\<close>

definition floor_log2 :: "rat \<Rightarrow> int" where
  "floor_log2 q =
     (if 1 \<le> q then int (floorlog 2 (nat \<lfloor>q\<rfloor>)) - 1
      else - int (floorlog 2 (nat (\<lceil>1 / q\<rceil> - 1))))"

definition round_half_even :: "rat \<Rightarrow> int" where
  "round_half_even t =
     (let f = \<lfloor>t\<rfloor>; r = t - of_int f
      in if r < 1 / 2 then f else if 1 / 2 < r then f + 1
         else if even f then f else f + 1)"

text \<open>
  The magnitude nearest to \<open>q \<ge> 0\<close> with a 53-bit significand and an exponent no smaller
  than the subnormals' (unit in the last place \<open>2 ^ -1074\<close>). \<open>round64\<close> attaches the
  sign and turns a rounded magnitude of \<open>2 ^ 1024\<close> or more into an infinity.
\<close>

definition round_mag :: "rat \<Rightarrow> rat" where
  "round_mag q =
     (let e = max (floor_log2 q) (- 1022); ulp = 2 powi (e - 52)
      in of_int (round_half_even (q / ulp)) * ulp)"

definition round64 :: "bool \<Rightarrow> rat \<Rightarrow> f64" where
  "round64 s q =
     (let m = round_mag q
      in if 1024 \<le> floor_log2 m then signed_inf s
         else if m = 0 then signed_zero s
         else Fin (if s then - m else m))"

text \<open>A decimal literal of the source, read as the nearest double.\<close>

definition lit :: "rat \<Rightarrow> f64" where
  "lit q = round64 (q < 0) \<bar>q\<bar>"

definition fdiv :: "f64 \<Rightarrow> f64 \<Rightarrow> f64" where
  "fdiv a b =
     (if is_nan a \<or> is_nan b \<or> (is_inf a \<and> is_inf b) \<or> (is_zero a \<and> is_zero b) then NaN
      else let s = (sign_bit a \<noteq> sign_bit b)
           in if is_inf a \<or> is_zero b then signed_inf s
              else if is_inf b \<or> is_zero a then signed_zero s
              else round64 s (\<bar>fval a\<bar> / \<bar>fval b\<bar>))"

definition fmul :: "f64 \<Rightarrow> f64 \<Rightarrow> f64" where
  "fmul a b =
     (if is_nan a \<or> is_nan b \<or> (is_inf a \<and> is_zero b) \<or> (is_zero a \<and> is_inf b) then NaN
      else let s = (sign_bit a \<noteq> sign_bit b)
           in if is_inf a \<or> is_inf b then signed_inf s
              else if is_zero a \<or> is_zero b then signed_zero s
              else round64 s (\<bar>fval a\<bar> * \<bar>fval b\<bar>))"

definition fadd :: "f64 \<Rightarrow> f64 \<Rightarrow> f64" where
  "fadd a b =
     (if is_nan a \<or> is_nan b \<or> (is_inf a \<and> is_inf b \<and> a \<noteq> b) then NaN
      else if is_inf a then a
      else if is_inf b then b
      else let r = fval a + fval b
           in if r = 0 then signed_zero (sign_bit a \<and> sign_bit b)
              else round64 (r < 0) \<bar>r\<bar>)"

fun fneg :: "f64 \<Rightarrow> f64" where
  "fneg (Fin r) = (if r = 0 then NegZero else Fin (- r))"
| "fneg NegZero = Fin 0"
| "fneg PInf = NInf"
| "fneg NInf = PInf"
| "fneg NaN = NaN"

definition fsub :: "f64 \<Rightarrow> f64 \<Rightarrow> f64" where
  "fsub a b = fadd a (fneg b)"

text \<open>Comparisons: every comparison with NaN is false, and \<open>-0.0 = +0.0\<close>.\<close>

fun inf_class :: "f64 \<Rightarrow> int" where
  "inf_class PInf = 1"
| "inf_class NInf = - 1"
| "inf_class _ = 0"

definition flt :: "f64 \<Rightarrow> f64 \<Rightarrow> bool" where
  "flt a b =
     (\<not> is_nan a \<and> \<not> is_nan b \<and>
      (inf_class a < inf_class b \<or> (inf_class a = inf_class b \<and> fval a < fval b)))"

definition fgt :: "f64 \<Rightarrow> f64 \<Rightarrow> bool" where
  "fgt a b = flt b a"

definition fge :: "f64 \<Rightarrow> f64 \<Rightarrow> bool" where
  "fge a b = (\<not> is_nan a \<and> \<not> is_nan b \<and> \<not> flt a b)"

definition is_finite :: "f64 \<Rightarrow> bool" where
  "is_finite a = (\<not> is_nan a \<and> \<not> is_inf a)"

subsection \<open>Python and numpy operations of the script\<close>

text \<open>
  The exceptions the script's own operations can raise: Python's float division by zero,
  numpy's shape mismatch and out-of-range index, the interpolant's range check (SciPy's
  \<^verbatim>\<open>interp1d\<close> raises \<^verbatim>\<open>ValueError\<close> outside the table unless told to extrapolate), the
  checks of \<^verbatim>\<open>np.random.uniform\<close> on its range and its size, a ragged \<^verbatim>\<open>np.vstack\<close>, and a
  missing dictionary key.
\<close>

datatype error =
    ZeroDivisionError
  | ValueError_broadcast
  | IndexError
  | ValueError_below_range
  | ValueError_above_range
  | OverflowError
  | ValueError_negative_dimensions
  | ValueError_vstack
  | KeyError string

text \<open>Python's \<^verbatim>\<open>a / b\<close> on floats raises on a zero divisor; numpy's does not.\<close>

definition py_truediv :: "f64 \<Rightarrow> f64 \<Rightarrow> error + f64" where
  "py_truediv a b = (if is_zero b then Inl ZeroDivisionError else Inr (fdiv a b))"

text \<open>
  An elementwise operation on two one-dimensional arrays: equal lengths, or one of them of
  length one, which is broadcast; anything else raises.
\<close>

definition np_broadcast :: "('a \<Rightarrow> 'a \<Rightarrow> 'b) \<Rightarrow> 'a list \<Rightarrow> 'a list \<Rightarrow> error + 'b list" where
  "np_broadcast f xs ys =
     (if length xs = length ys then Inr (map2 f xs ys)
      else if length xs = 1 then Inr (map (f (hd xs)) ys)
      else if length ys = 1 then Inr (map (\<lambda>x. f x (hd ys)) xs)
      else Inl ValueError_broadcast)"

text \<open>\<^verbatim>\<open>np.where(cond)[0]\<close>: the indices at which the condition holds, in increasing order.\<close>

definition np_where :: "bool list \<Rightarrow> nat list" where
  "np_where cond = filter (\<lambda>i. cond ! i) [0..<length cond]"

text \<open>\<^verbatim>\<open>xs[idx]\<close> with an index array: every index must be inside the array.\<close>

definition np_take :: "'a list \<Rightarrow> nat list \<Rightarrow> error + 'a list" where
  "np_take xs idx =
     (if list_all (\<lambda>i. i < length xs) idx then Inr (map (\<lambda>i. xs ! i) idx) else Inl IndexError)"

text \<open>
  \<^verbatim>\<open>np.linspace(start, stop, num)\<close> with the end point included: the samples
  \<open>i * step + start\<close> with \<open>step = (stop - start) / (num - 1)\<close>, the last one set to
  \<open>stop\<close> itself.
\<close>

definition np_linspace :: "f64 \<Rightarrow> f64 \<Rightarrow> nat \<Rightarrow> f64 list" where
  "np_linspace start stop num =
     (let d = Fin (of_nat (num - 1));
          delta = fsub stop start;
          step = fdiv delta d;
          y = map (\<lambda>i. fadd (if 1 < num then
                                 if is_zero step then fmul (fdiv (Fin (of_nat i)) d) delta
                                 else fmul (Fin (of_nat i)) step
                               else fmul (Fin (of_nat i)) delta) start) [0..<num]
      in if 1 < num then y[num - 1 := stop] else y)"

text \<open>
  The library functions whose values the script only passes on: \<^verbatim>\<open>np.log10\<close>, the
  value of SciPy's quadratic spline through the points \<open>(xs, ys)\<close> at a point inside the
  table, \<^verbatim>\<open>ndarray.mean\<close>, \<^verbatim>\<open>ndarray.std\<close> and the format \<^verbatim>\<open>{:.2f}\<close>.
\<close>

record numpy =
  np_log10 :: "f64 \<Rightarrow> f64"
  spline_quadratic :: "f64 list \<Rightarrow> f64 list \<Rightarrow> f64 \<Rightarrow> f64"
  np_mean :: "f64 list \<Rightarrow> f64"
  np_std :: "f64 list \<Rightarrow> f64"
  format_2f :: "f64 \<Rightarrow> string"

text \<open>
  Calling \<^verbatim>\<open>interp1d(xs, ys, kind='quadratic')\<close> on an array: a value below \<open>xs[0]\<close> or
  above \<open>xs[-1]\<close> raises (the check for values below comes first).
\<close>

definition interp1d :: "numpy \<Rightarrow> f64 list \<Rightarrow> f64 list \<Rightarrow> f64 list \<Rightarrow> error + f64 list" where
  "interp1d np xs ys x_new =
     (if list_ex (\<lambda>x. flt x (hd xs)) x_new then Inl ValueError_below_range
      else if list_ex (\<lambda>x. fgt x (last xs)) x_new then Inl ValueError_above_range
      else Inr (map (spline_quadratic np xs ys) x_new))"

text \<open>A natural number in decimal, as \<^verbatim>\<open>str.format\<close> prints an integer.\<close>

fun show_nat :: "nat \<Rightarrow> string" where
  "show_nat n =
     (if n < 10 then [char_of (48 + n)] else show_nat (n div 10) @ [char_of (48 + n mod 10)])"

declare show_nat.simps [simp del]

subsection \<open>The naive estimator\<close>

definition lk_grid :: "f64 list" where
  "lk_grid = np_linspace (Fin 0) (lit (175 / 1000)) 8"

definition lk_table :: "f64 list" where
  "lk_table = [lit 0, lit (- (1 / 100)), lit (- (2 / 100)), lit (- (6 / 100)), lit (- (11 / 100)),
               lit (- (18 / 100)), lit (- (28 / 100)), lit (- (43 / 100))]"

definition lk_correction :: "numpy \<Rightarrow> f64 list \<Rightarrow> error + f64 list" where
  "lk_correction np = interp1d np lk_grid lk_table"

definition lk_relative_error_limit :: f64 where
  "lk_relative_error_limit = lit (175 / 1000)"

text \<open>
  Line 38: \<^verbatim>\<open>goodplx = np.where(obsplx/errplx >= 1/lk_relative_error_limit)\<close>.
\<close>

definition goodplx :: "f64 list \<Rightarrow> f64 list \<Rightarrow> error + nat list" where
  "goodplx obsplx errplx =
     (case np_broadcast fdiv obsplx errplx of
        Inl e \<Rightarrow> Inl e
      | Inr ratio \<Rightarrow>
          Inr (np_where (map (\<lambda>r. fge r (fdiv (Fin 1) lk_relative_error_limit)) ratio)))"

text \<open>
  Line 41: \<^verbatim>\<open>absMagNaive = obsmag[goodplx] + 5*np.log10(obsplx[goodplx]) - 10.0\<close>. Both
  operands have one entry per selected star.
\<close>

definition absMagNaive :: "numpy \<Rightarrow> f64 list \<Rightarrow> f64 list \<Rightarrow> nat list \<Rightarrow> error + f64 list" where
  "absMagNaive np obsplx obsmag good =
     (case np_take obsmag good of
        Inl e \<Rightarrow> Inl e
      | Inr mags \<Rightarrow>
          (case np_take obsplx good of
             Inl e \<Rightarrow> Inl e
           | Inr plxs \<Rightarrow>
               Inr (map (\<lambda>v. fsub v (Fin 10))
                      (map2 fadd mags (map (fmul (Fin 5)) (map (np_log10 np) plxs))))))"

text \<open>
  Line 42:
  \<^verbatim>\<open>absMagNaiveCorrected = absMagNaive + lk_correction(errplx[goodplx]/obsplx[goodplx])\<close>.
\<close>

definition absMagNaiveCorrected ::
  "numpy \<Rightarrow> f64 list \<Rightarrow> f64 list \<Rightarrow> f64 list \<Rightarrow> nat list \<Rightarrow> error + f64 list" where
  "absMagNaiveCorrected np obsplx errplx naive good =
     (case np_take errplx good of
        Inl e \<Rightarrow> Inl e
      | Inr errs \<Rightarrow>
          (case np_take obsplx good of
             Inl e \<Rightarrow> Inl e
           | Inr plxs \<Rightarrow>
               (case lk_correction np (map2 fdiv errs plxs) of
                  Inl e \<Rightarrow> Inl e
                | Inr corr \<Rightarrow> Inr (map2 fadd naive corr))))"

definition mean_and_sigma :: "numpy \<Rightarrow> f64 list \<Rightarrow> string" where
  "mean_and_sigma np xs =
     ''Mean and sigma: '' @ format_2f np (np_mean np xs) @ '', '' @ format_2f np (np_std np xs)"

text \<open>
  \<^verbatim>\<open>naive_lum_estimate(obsplx, errplx, obsmag, errmag)\<close>: the lines it prints, or the
  exception it raises (every exception comes before the first \<^verbatim>\<open>print\<close>).
\<close>

definition naive_lum_estimate ::
  "numpy \<Rightarrow> f64 list \<Rightarrow> f64 list \<Rightarrow> f64 list \<Rightarrow> f64 list \<Rightarrow> error + string list" where
  "naive_lum_estimate np obsplx errplx obsmag errmag =
     (case goodplx obsplx errplx of
        Inl e \<Rightarrow> Inl e
      | Inr good \<Rightarrow>
          if 3 \<le> length good then
            (case absMagNaive np obsplx obsmag good of
               Inl e \<Rightarrow> Inl e
             | Inr naive \<Rightarrow>
                 (case absMagNaiveCorrected np obsplx errplx naive good of
                    Inl e \<Rightarrow> Inl e
                  | Inr corrected \<Rightarrow>
                      Inr [''Number of 'good' parallaxes used '' @ show_nat (length good) @ ''/''
                             @ show_nat (length obsplx),
                           ''### Naive estimate ###'',
                           mean_and_sigma np naive,
                           ''### Naive estimate after LK correction ###'',
                           mean_and_sigma np corrected]))
          else Inr [''Cannot make naive estimate''])"

subsection \<open>The driver\<close>

text \<open>The parsed command line: one field per option of \<^verbatim>\<open>parseCommandLineArguments\<close>.\<close>

record args =
  distMin :: f64
  distMax :: f64
  nstars :: int
  muM :: f64
  sigmaM :: f64
  mlim :: f64
  cat :: string
  surveyplot :: bool
  noplots :: bool
  volumecomplete :: bool
  surveyseed :: "int option"
  stanseed :: "int option"
  staniter :: int
  stanthin :: int

text \<open>The defaults of \<^verbatim>\<open>parseCommandLineArguments\<close> (the script run without options).\<close>

definition default_args :: args where
  "default_args =
     \<lparr>distMin = Fin 1, distMax = Fin 100, nstars = 50, muM = Fin 9, sigmaM = lit (7 / 10),
      mlim = PInf, cat = ''hip'', surveyplot = False, noplots = False, volumecomplete = False,
      surveyseed = None, stanseed = None, staniter = 10000, stanthin = 5\<rparr>"

text \<open>The attributes the script reads from the survey object after \<^verbatim>\<open>generateObservations()\<close>.\<close>

record survey =
  numberOfStarsInSurvey :: int
  observedParallaxes :: "f64 list"
  parallaxErrors :: "f64 list"
  observedMagnitudes :: "f64 list"
  magnitudeErrors :: "f64 list"
  apparentMagnitudeLimit :: f64

datatype pyval = PyFloat f64 | PyInt int | PyArray "f64 list"

text \<open>One call of \<^verbatim>\<open>sm.sampling(...)\<close>: the cached model it is called on and its keyword arguments.\<close>

record sampling =
  sm_code :: string
  sm_name :: string
  s_data :: "(string \<times> pyval) list"
  s_pars :: "string list"
  s_iter :: int
  s_chains :: int
  s_thin :: int
  s_seed :: "int option"
  s_init :: "(string \<times> f64 list) list list option"

text \<open>
  The calls the driver makes, in the order it makes them: the calls into its libraries, and
  its one call of \<^verbatim>\<open>naive_lum_estimate\<close> with the arguments it passes.
\<close>

datatype event =
    Print string
  | Print_fit
  | New_survey string int f64 f64 f64 f64 f64
  | Set_random_number_seed "int option"
  | Generate_observations
  | Show_survey_statistics string bool
  | Random_uniform f64 f64 int
  | Load_stan_code string
  | Stan_cache string string
  | Sampling sampling
  | Call_naive_lum_estimate "f64 list" "f64 list" "f64 list" "f64 list"
  | Fit_extract
  | Plt_figure int int
  | Add_subplot int int int
  | Corner "f64 list list" "string list" "f64 list" string "f64 list" bool
  | Plt_show

text \<open>
  What the external calls give back: the survey after the observations were generated, the
  text \<^verbatim>\<open>load_stan_code\<close> reads from a file, the array the \<open>i\<close>-th call of
  \<^verbatim>\<open>np.random.uniform(low, high, size)\<close> draws, and the dictionary \<^verbatim>\<open>fit.extract()\<close> returns.
\<close>

record world =
  generated_survey :: survey
  stan_code :: "string \<Rightarrow> string"
  random_uniform :: "nat \<Rightarrow> f64 \<Rightarrow> f64 \<Rightarrow> int \<Rightarrow> f64 list"
  fit_extract :: "(string \<times> f64 list) list"

text \<open>Lines 74 to 81.\<close>

definition survey_trace :: "args \<Rightarrow> event list" where
  "survey_trace a =
     [Print ''### Generating parallax survey ... ###'',
      New_survey (if cat a = ''hip'' then ''UniformDistributionSingleLuminosityHip''
                  else ''UniformDistributionSingleLuminosityTGAS'')
        (nstars a) (distMin a) (distMax a) (muM a) (sigmaM a) (mlim a),
      Set_random_number_seed (surveyseed a),
      Generate_observations,
      Print ''### ... Done ###'']"

text \<open>Lines 83 and 84.\<close>

definition survey_plot_trace :: "args \<Rightarrow> event list" where
  "survey_plot_trace a =
     (if surveyplot a \<and> \<not> noplots a then [Show_survey_statistics ''surveyStats.pdf'' False]
      else [])"

text \<open>The dictionary \<^verbatim>\<open>stan_data\<close>: lines 87 to 89, and lines 104 to 107.\<close>

definition stan_data :: "args \<Rightarrow> survey \<Rightarrow> (string \<times> pyval) list" where
  "stan_data a sv =
     (if volumecomplete a then
        [(''minDist'', PyFloat (distMin a)), (''maxDist'', PyFloat (distMax a)),
         (''N'', PyInt (numberOfStarsInSurvey sv)),
         (''obsPlx'', PyArray (observedParallaxes sv)),
         (''errObsPlx'', PyArray (parallaxErrors sv)),
         (''obsMag'', PyArray (observedMagnitudes sv)),
         (''errObsMag'', PyArray (magnitudeErrors sv))]
      else
        [(''minDist'', PyFloat (distMin a)), (''maxDist'', PyFloat (distMax a)),
         (''surveyLimit'', PyFloat (apparentMagnitudeLimit sv)),
         (''N'', PyInt (numberOfStarsInSurvey sv)),
         (''obsPlx'', PyArray (observedParallaxes sv)),
         (''errObsPlx'', PyArray (parallaxErrors sv)),
         (''obsMag'', PyArray (observedMagnitudes sv)),
         (''errObsMag'', PyArray (magnitudeErrors sv))])"

definition numChains :: nat where
  "numChains = 4"

text \<open>Lines 97 and 98.\<close>

definition maxPossibleAbsMag :: "numpy \<Rightarrow> args \<Rightarrow> survey \<Rightarrow> f64" where
  "maxPossibleAbsMag np a sv =
     fadd (fsub (apparentMagnitudeLimit sv) (fmul (Fin 5) (np_log10 np (distMax a)))) (Fin 5)"

definition initLow :: "numpy \<Rightarrow> args \<Rightarrow> survey \<Rightarrow> f64" where
  "initLow np a sv = fsub (maxPossibleAbsMag np a sv) (Fin 4)"

text \<open>
  \<^verbatim>\<open>np.random.uniform(low, high, size)\<close> with scalar bounds computes the range
  \<open>high - low\<close> and raises \<^verbatim>\<open>OverflowError\<close> when it is not finite; a negative size raises
  \<^verbatim>\<open>ValueError\<close> when the array is allocated. Otherwise the call returns the world's draw.
\<close>

definition uniform_error :: "f64 \<Rightarrow> f64 \<Rightarrow> int \<Rightarrow> error option" where
  "uniform_error low high n =
     (if \<not> is_finite (fsub high low) then Some OverflowError
      else if n < 0 then Some ValueError_negative_dimensions
      else None)"

definition np_random_uniform :: "world \<Rightarrow> nat \<Rightarrow> f64 \<Rightarrow> f64 \<Rightarrow> int \<Rightarrow> error + f64 list" where
  "np_random_uniform w i low high n =
     (case uniform_error low high n of
        Some e \<Rightarrow> Inl e
      | None \<Rightarrow> Inr (random_uniform w i low high n))"

text \<open>
  Lines 99 to 102, the loop over the chains: one dictionary per chain, each from a draw of
  its own. The calls made are returned with the list, or with the exception of the call
  that raised.
\<close>

fun initial_values_loop ::
  "world \<Rightarrow> f64 \<Rightarrow> f64 \<Rightarrow> int \<Rightarrow> nat list
     \<Rightarrow> event list \<times> (error + (string \<times> f64 list) list list)" where
  "initial_values_loop w low high n [] = ([], Inr [])"
| "initial_values_loop w low high n (i # rest_chains) =
     (case np_random_uniform w i low high n of
        Inl e \<Rightarrow> ([Random_uniform low high n], Inl e)
      | Inr draw \<Rightarrow>
          (case initial_values_loop w low high n rest_chains of
             (tr, Inl e) \<Rightarrow> (Random_uniform low high n # tr, Inl e)
           | (tr, Inr rest) \<Rightarrow>
               (Random_uniform low high n # tr, Inr ([(''absMag'', draw)] # rest))))"

definition initialValuesList ::
  "numpy \<Rightarrow> world \<Rightarrow> args \<Rightarrow> survey
     \<Rightarrow> event list \<times> (error + (string \<times> f64 list) list list)" where
  "initialValuesList np w a sv =
     initial_values_loop w (initLow np a sv) (maxPossibleAbsMag np a sv)
       (numberOfStarsInSurvey sv) [0..<numChains]"

text \<open>
  Lines 86 to 111: the model is chosen, compiled or fetched from the cache, and sampled. In
  the magnitude-limited case the initial values are drawn first, so an exception of line
  101 ends the run before a model is loaded.
\<close>

definition sampling_trace ::
  "numpy \<Rightarrow> world \<Rightarrow> args \<Rightarrow> survey \<Rightarrow> event list \<times> (error + unit)" where
  "sampling_trace np w a sv =
     (if volumecomplete a then
        ([Load_stan_code ''luminosity_inference_volume_complete_distance_prior.stan'',
          Stan_cache (stan_code w ''luminosity_inference_volume_complete_distance_prior.stan'')
            ''luminosityInferenceDistPriorVC'',
          Sampling
            \<lparr>sm_code = stan_code w ''luminosity_inference_volume_complete_distance_prior.stan'',
             sm_name = ''luminosityInferenceDistPriorVC'',
             s_data = stan_data a sv, s_pars = [''meanAbsMag'', ''sigmaAbsMag''],
             s_iter = staniter a, s_chains = int numChains, s_thin = stanthin a,
             s_seed = stanseed a, s_init = None\<rparr>],
         Inr ())
      else
        (case initialValuesList np w a sv of
           (tr, Inl e) \<Rightarrow> (tr, Inl e)
         | (tr, Inr initial) \<Rightarrow>
             (tr @ [Load_stan_code ''luminosity_inference_distance_prior.stan'',
                    Stan_cache (stan_code w ''luminosity_inference_distance_prior.stan'')
                      ''luminosityInferenceDistPrior'',
                    Sampling
                      \<lparr>sm_code = stan_code w ''luminosity_inference_distance_prior.stan'',
                       sm_name = ''luminosityInferenceDistPrior'',
                       s_data = stan_data a sv, s_pars = [''meanAbsMag'', ''sigmaAbsMag''],
                       s_iter = staniter a, s_chains = int numChains, s_thin = stanthin a,
                       s_seed = stanseed a, s_init = Some initial\<rparr>],
              Inr ())))"

text \<open>The exception that ends the drawing of the initial values at line 101, if there is one.\<close>

definition draw_error :: "numpy \<Rightarrow> args \<Rightarrow> survey \<Rightarrow> error option" where
  "draw_error np a sv =
     (if volumecomplete a then None
      else uniform_error (initLow np a sv) (maxPossibleAbsMag np a sv)
             (numberOfStarsInSurvey sv))"

text \<open>A dictionary lookup \<^verbatim>\<open>d[key]\<close>.\<close>

definition py_getitem :: "(string \<times> 'v) list \<Rightarrow> string \<Rightarrow> error + 'v" where
  "py_getitem d k = (case map_of d k of None \<Rightarrow> Inl (KeyError k) | Some v \<Rightarrow> Inr v)"

text \<open>\<^verbatim>\<open>np.vstack\<close> of one-dimensional arrays: one row each, all of one length.\<close>

definition np_vstack :: "f64 list list \<Rightarrow> error + f64 list list" where
  "np_vstack rows =
     (if list_all (\<lambda>r. length r = length (hd rows)) rows then Inr rows else Inl ValueError_vstack)"

text \<open>
  Line 119:
  \<^verbatim>\<open>samples = np.vstack([fit.extract()['meanAbsMag'], fit.extract()['sigmaAbsMag']]).transpose()\<close>,
  with the calls it makes.
\<close>

definition samples_of :: "world \<Rightarrow> event list \<times> (error + f64 list list)" where
  "samples_of w =
     (case py_getitem (fit_extract w) ''meanAbsMag'' of
        Inl e \<Rightarrow> ([Fit_extract], Inl e)
      | Inr m \<Rightarrow>
          (case py_getitem (fit_extract w) ''sigmaAbsMag'' of
             Inl e \<Rightarrow> ([Fit_extract, Fit_extract], Inl e)
           | Inr sg \<Rightarrow>
               (case np_vstack [m, sg] of
                  Inl e \<Rightarrow> ([Fit_extract, Fit_extract], Inl e)
                | Inr rows \<Rightarrow> ([Fit_extract, Fit_extract], Inr (transpose rows)))))"

text \<open>Lines 121 to 127.\<close>

definition corner_trace :: "args \<Rightarrow> f64 list list \<Rightarrow> event list" where
  "corner_trace a samples =
     (if \<not> noplots a then
        [Plt_figure 8 8]
        @ map (\<lambda>i. Add_subplot 2 2 (int i)) [1..<5]
        @ [Corner samples [''$'' @ [CHR 0x5C] @ ''mu_M$'', ''$'' @ [CHR 0x5C] @ ''sigma_M$'']
             [muM a, sigmaM a] ''r'' [lit (16 / 100), lit (50 / 100), lit (84 / 100)] True,
           Plt_show]
      else [])"

text \<open>
  Lines 113 to 127: the fit is printed, the naive estimator is called on the survey's arrays
  and prints its lines, the posterior draws are stacked into \<^verbatim>\<open>samples\<close>, and the corner
  plot is drawn. The result is the exception that ended the run or the value of \<^verbatim>\<open>samples\<close>.
\<close>

definition report :: "numpy \<Rightarrow> world \<Rightarrow> args \<Rightarrow> survey \<Rightarrow> event list \<times> (error + f64 list list)" where
  "report np w a sv =
     (let tr = [Print [], Print_fit, Print [],
                Call_naive_lum_estimate (observedParallaxes sv) (parallaxErrors sv)
                  (observedMagnitudes sv) (magnitudeErrors sv)]
      in case naive_lum_estimate np (observedParallaxes sv) (parallaxErrors sv)
                (observedMagnitudes sv) (magnitudeErrors sv) of
           Inl e \<Rightarrow> (tr, Inl e)
         | Inr printed \<Rightarrow>
             (case samples_of w of
                (ex, Inl e) \<Rightarrow> (tr @ map Print printed @ ex, Inl e)
              | (ex, Inr samples) \<Rightarrow>
                  (tr @ map Print printed @ ex @ corner_trace a samples, Inr samples)))"

text \<open>
  \<^verbatim>\<open>run_luminosity_inference(args)\<close>: the calls made, and either the exception that ended
  the run or, at its end, the value of the local variable \<^verbatim>\<open>samples\<close> (the function itself
  returns nothing). Lines 65 and 66 divide Python floats, so a zero distance bound ends the
  run before anything is printed; an exception of the initial-value draw ends it before a
  model is loaded.
\<close>

definition run_luminosity_inference ::
  "numpy \<Rightarrow> world \<Rightarrow> args \<Rightarrow> event list \<times> (error + f64 list list)" where
  "run_luminosity_inference np w a =
     (case py_truediv (Fin 1000) (distMax a) of
        Inl e \<Rightarrow> ([], Inl e)
      | Inr plxMin \<Rightarrow>
          (case py_truediv (Fin 1000) (distMin a) of
             Inl e \<Rightarrow> ([], Inl e)
           | Inr plxMax \<Rightarrow>
               (let sv = generated_survey w
                in case sampling_trace np w a sv of
                     (tr, Inl e) \<Rightarrow> (survey_trace a @ survey_plot_trace a @ tr, Inl e)
                   | (tr, Inr fit) \<Rightarrow>
                       (case report np w a sv of
                          (tr', result) \<Rightarrow>
                            (survey_trace a @ survey_plot_trace a @ tr @ tr', result)))))"

subsection \<open>Reading a trace\<close>

fun sampling_of :: "event \<Rightarrow> sampling list" where
  "sampling_of (Sampling s) = [s]"
| "sampling_of _ = []"

definition sampling_calls :: "event list \<Rightarrow> sampling list" where
  "sampling_calls tr = concat (map sampling_of tr)"

fun loaded_of :: "event \<Rightarrow> string list" where
  "loaded_of (Load_stan_code f) = [f]"
| "loaded_of _ = []"

definition loaded_models :: "event list \<Rightarrow> string list" where
  "loaded_models tr = concat (map loaded_of tr)"

fun cached_of :: "event \<Rightarrow> (string \<times> string) list" where
  "cached_of (Stan_cache c n) = [(c, n)]"
| "cached_of _ = []"

definition cached_models :: "event list \<Rightarrow> (string \<times> string) list" where
  "cached_models tr = concat (map cached_of tr)"

fun is_plot :: "event \<Rightarrow> bool" where
  "is_plot (Show_survey_statistics f k) = True"
| "is_plot (Corner smp labels truths colour quantiles titles) = True"
| "is_plot _ = False"

definition plots :: "event list \<Rightarrow> event list" where
  "plots tr = filter is_plot tr"

fun naive_call_of :: "event \<Rightarrow> (f64 list \<times> f64 list \<times> f64 list \<times> f64 list) list" where
  "naive_call_of (Call_naive_lum_estimate p e m em) = [(p, e, m, em)]"
| "naive_call_of _ = []"

definition naive_calls :: "event list \<Rightarrow> (f64 list \<times> f64 list \<times> f64 list \<times> f64 list) list" where
  "naive_calls tr = concat (map naive_call_of tr)"

fun uniform_of :: "event \<Rightarrow> (f64 \<times> f64 \<times> int) list" where
  "uniform_of (Random_uniform lo hi n) = [(lo, hi, n)]"
| "uniform_of _ = []"

definition uniform_calls :: "event list \<Rightarrow> (f64 \<times> f64 \<times> int) list" where
  "uniform_calls tr = concat (map uniform_of tr)"

subsection \<open>A concrete run\<close>

text \<open>
  Stand-ins for the library functions and the external results, to evaluate the model on
  concrete inputs: the run of \<^verbatim>\<open>--nstars 3 --mlim 12 --staniter 2 --stanthin 1\<close>, with a
  survey of three stars of parallax 40, error 1 and magnitude 9, and one posterior draw
  from each of the four chains. The logarithm is given at the two arguments the run meets
  (\<open>log10 100 = 2\<close>, \<open>log10 40 = 1.6020599913279625\<close>). The theorems below hold for every
  choice of these.
\<close>

definition demo_numpy :: numpy where
  "demo_numpy =
     \<lparr>np_log10 = (\<lambda>x. if x = Fin 100 then Fin 2
                      else if x = Fin 40 then Fin (28183737421757 / 2 ^ 44) else NaN),
      spline_quadratic = (\<lambda>xs ys x. Fin 0), np_mean = hd,
      np_std = (\<lambda>xs. Fin 0), format_2f = (\<lambda>x. ''0.00'')\<rparr>"

definition demo_args :: args where
  "demo_args = default_args\<lparr>nstars := 3, mlim := Fin 12, staniter := 2, stanthin := 1\<rparr>"

definition demo_survey :: survey where
  "demo_survey =
     \<lparr>numberOfStarsInSurvey = 3,
      observedParallaxes = [Fin 40, Fin 40, Fin 40],
      parallaxErrors = [Fin 1, Fin 1, Fin 1],
      observedMagnitudes = [Fin 9, Fin 9, Fin 9],
      magnitudeErrors = [Fin 1, Fin 1, Fin 1],
      apparentMagnitudeLimit = Fin 12\<rparr>"

definition demo_world :: world where
  "demo_world =
     \<lparr>generated_survey = demo_survey, stan_code = (\<lambda>f. f),
      random_uniform = (\<lambda>i lo hi n. replicate (nat n) lo),
      fit_extract = [(''meanAbsMag'', [Fin 9, Fin 9, Fin 9, Fin 9]),
                     (''sigmaAbsMag'', [Fin 1, Fin 1, Fin 2, Fin 2]),
                     (''lp__'', [Fin 0, Fin 0, Fin 0, Fin 0])]\<rparr>"

text \<open>The double \<open>17.142857142857142\<close>.\<close>

definition plx_17_14 :: f64 where
  "plx_17_14 = Fin (4825285315039817 / 2 ^ 48)"

section \<open>Rounding\<close>

lemma floor_log2_ge_one:
  fixes q :: rat
  assumes "1 \<le> q"
  shows "2 powi floor_log2 q \<le> q \<and> q < 2 powi (floor_log2 q + 1)"
proof -
  define n where "n = nat \<lfloor>q\<rfloor>"
  have n: "0 < n" "of_nat n \<le> q" "q < of_nat n + 1"
    using assms by (simp_all add: n_def) linarith+
  define k where "k = floorlog 2 n"
  have b: "2 ^ (k - 1) \<le> n" "n < 2 ^ k"
    using floorlog_bounds [of n 2] n(1) by (simp_all add: k_def)
  have kpos: "0 < k"
    using b(2) n(1) by (cases k) auto
  have e: "floor_log2 q = int k - 1"
    using assms by (simp add: floor_log2_def n_def k_def)
  have "(of_nat (2 ^ (k - 1)) :: rat) \<le> of_nat n"
    using b(1) by (simp only: of_nat_le_iff)
  then have "(2::rat) ^ (k - 1) \<le> of_nat n"
    by simp
  then have "(2::rat) ^ (k - 1) \<le> q"
    using n(2) by (rule order_trans)
  moreover have "(2::rat) powi (int k - 1) = 2 ^ (k - 1)"
    using kpos by (simp add: power_int_def nat_diff_distrib')
  ultimately have lo: "(2::rat) powi (int k - 1) \<le> q"
    by simp
  have "n + 1 \<le> 2 ^ k"
    using b(2) by simp
  then have "(of_nat (n + 1) :: rat) \<le> of_nat (2 ^ k)"
    by (simp only: of_nat_le_iff)
  then have "(of_nat (n + 1) :: rat) \<le> 2 ^ k"
    by simp
  with n(3) have "q < (2::rat) ^ k"
    by simp
  then have hi: "q < (2::rat) powi (int k)"
    by (simp add: power_int_def)
  from lo hi e show ?thesis
    by simp
qed

lemma floor_log2_lt_one:
  fixes q :: rat
  assumes "0 < q" "q < 1"
  shows "2 powi floor_log2 q \<le> q \<and> q < 2 powi (floor_log2 q + 1)"
proof -
  define x where "x = 1 / q"
  have x: "1 < x" "0 < x"
    using assms by (simp_all add: x_def)
  define n where "n = nat (\<lceil>x\<rceil> - 1)"
  have c: "2 \<le> \<lceil>x\<rceil>"
    using x(1) by (simp add: le_ceiling_iff)
  have n: "0 < n" "of_nat n < x" "x \<le> of_nat n + 1"
    using c by (simp_all add: n_def) linarith+
  define j where "j = floorlog 2 n"
  have b: "2 ^ (j - 1) \<le> n" "n < 2 ^ j"
    using floorlog_bounds [of n 2] n(1) by (simp_all add: j_def)
  have jpos: "0 < j"
    using b(2) n(1) by (cases j) auto
  have e: "floor_log2 q = - int j"
    using assms by (simp add: floor_log2_def n_def j_def x_def)
  have "n + 1 \<le> 2 ^ j"
    using b(2) by simp
  then have "(of_nat (n + 1) :: rat) \<le> of_nat (2 ^ j)"
    by (simp only: of_nat_le_iff)
  then have "(of_nat n + 1 :: rat) \<le> 2 ^ j"
    by simp
  with n(3) have "x \<le> 2 ^ j"
    by (rule order_trans)
  then have "1 / 2 ^ j \<le> q"
    using assms(1) by (simp add: x_def field_simps)
  moreover have "(2::rat) powi (- int j) = 1 / 2 ^ j"
    by (simp add: power_int_minus field_simps)
  ultimately have lo: "2 powi (- int j) \<le> q"
    by simp
  have "(of_nat (2 ^ (j - 1)) :: rat) \<le> of_nat n"
    using b(1) by (simp only: of_nat_le_iff)
  then have "(2::rat) ^ (j - 1) \<le> of_nat n"
    by simp
  from this n(2) have "(2::rat) ^ (j - 1) < x"
    by (rule le_less_trans)
  then have "q < 1 / 2 ^ (j - 1)"
    using assms(1) by (simp add: x_def field_simps)
  moreover have "(2::rat) powi (- int j + 1) = 1 / 2 ^ (j - 1)"
  proof -
    have "- int j + 1 = - int (j - 1)"
      using jpos by simp
    then show ?thesis
      by (simp only: power_int_minus power_int_of_nat inverse_eq_divide)
  qed
  ultimately have hi: "q < 2 powi (- int j + 1)"
    by simp
  from lo hi e show ?thesis
    by simp
qed

text \<open>\<open>floor_log2\<close> is the exponent of a positive rational.\<close>

lemma floor_log2_bounds:
  fixes q :: rat
  assumes "0 < q"
  shows "2 powi floor_log2 q \<le> q \<and> q < 2 powi (floor_log2 q + 1)"
  using assms floor_log2_ge_one [of q] floor_log2_lt_one [of q]
  by (cases "1 \<le> q") simp_all

text \<open>Rounding to an integer moves by at most one half, and to an even integer on a tie.\<close>

lemma round_half_even_nearest:
  "\<bar>of_int (round_half_even t) - t\<bar> \<le> 1 / 2"
  "\<bar>of_int (round_half_even t) - t\<bar> = 1 / 2 \<Longrightarrow> even (round_half_even t)"
proof -
  have f: "of_int \<lfloor>t\<rfloor> \<le> t" "t < of_int \<lfloor>t\<rfloor> + 1"
    by linarith+
  then show "\<bar>of_int (round_half_even t) - t\<bar> \<le> 1 / 2"
    by (auto simp: round_half_even_def Let_def)
  show "even (round_half_even t)" if "\<bar>of_int (round_half_even t) - t\<bar> = 1 / 2"
    using that f
    by (auto simp: round_half_even_def Let_def split: if_splits)
qed

lemma scaled_rounding:
  fixes u :: rat
  assumes "0 < u" "\<bar>a - q / u\<bar> \<le> 1 / 2"
  shows "\<bar>a * u - q\<bar> \<le> u / 2"
proof -
  have "a * u - q = (a - q / u) * u"
    using assms(1) by (simp add: field_simps)
  then have "\<bar>a * u - q\<bar> = \<bar>a - q / u\<bar> * u"
    using assms(1) by (simp add: abs_mult)
  also have "\<dots> \<le> 1 / 2 * u"
    using assms by (intro mult_right_mono) simp_all
  finally show ?thesis
    by simp
qed

text \<open>
  The rounded magnitude is a multiple of the unit in the last place of its argument, at
  most half a unit away from it.
\<close>

lemma round_mag_nearest:
  fixes q :: rat
  defines "ulp \<equiv> 2 powi (max (floor_log2 q) (- 1022) - 52)"
  shows "\<exists>n. round_mag q = of_int n * ulp" and "\<bar>round_mag q - q\<bar> \<le> ulp / 2"
proof -
  have pos: "0 < ulp"
    by (simp add: ulp_def)
  show "\<exists>n. round_mag q = of_int n * ulp"
    by (auto simp: round_mag_def Let_def ulp_def)
  have "\<bar>of_int (round_half_even (q / ulp)) * ulp - q\<bar> \<le> ulp / 2"
    using pos round_half_even_nearest(1) by (rule scaled_rounding)
  then show "\<bar>round_mag q - q\<bar> \<le> ulp / 2"
    by (simp add: round_mag_def Let_def ulp_def)
qed

section \<open>Arithmetic facts\<close>

text \<open>The doubles the proofs below meet, each computed from the definitions.\<close>

lemma lit_175: "lit (7 / 40) = Fin (3152519739159347 / 18014398509481984)"
  by code_simp

lemma limit_value: "lk_relative_error_limit = Fin (3152519739159347 / 18014398509481984)"
  by (simp add: lk_relative_error_limit_def lit_175)

lemma inverse_limit_value:
  "fdiv (Fin 1) (Fin (3152519739159347 / 18014398509481984)) =
     Fin (6433713753386423 / 1125899906842624)"
  by code_simp

lemma step_value:
  "fdiv (fsub (Fin (3152519739159347 / 18014398509481984)) (Fin 0)) (Fin 7) =
     Fin (7205759403792793 / 288230376151711744)"
  by code_simp




lemma div_17_3: "fdiv plx_17_14 (Fin 3) = Fin (6433713753386423 / 1125899906842624)"
  by code_simp

lemma div_3_17: "fdiv (Fin 3) plx_17_14 = Fin (6305039478318695 / 36028797018963968)"
  by code_simp

text \<open>
  In exact arithmetic the cut of line 38 keeps the relative error inside the table. The two
  quotients of the script are rounded separately, which is why this does not carry over to
  the doubles (see \<open>div_17_3\<close> and \<open>div_3_17\<close>).
\<close>

lemma exact_cut_inside_table:
  fixes x e :: rat
  assumes "0 < e" "1 / (7 / 40) \<le> x / e"
  shows "0 < x \<and> 0 < e / x \<and> e / x \<le> 7 / 40"
proof -
  have "40 / 7 * e \<le> x"
    using assms by (simp add: pos_le_divide_eq)
  then have x: "0 < x" and le: "e \<le> 7 / 40 * x"
    using assms(1) by auto
  from x le assms(1) show ?thesis
    by (simp add: pos_divide_le_eq)
qed

section \<open>The table and the selection\<close>

lemma lk_grid_length: "length lk_grid = 8"
  by (simp add: lk_grid_def np_linspace_def Let_def)

lemma lk_grid_last: "last lk_grid = lk_relative_error_limit"
  by (simp add: lk_grid_def np_linspace_def Let_def lk_relative_error_limit_def last_list_update)

lemma lk_grid_hd: "hd lk_grid = Fin 0"
proof -
  have "lk_grid \<noteq> []"
    using lk_grid_length by auto
  then have "hd lk_grid = lk_grid ! 0"
    by (simp add: hd_conv_nth)
  also have "\<dots> = Fin 0"
    by (simp add: lk_grid_def np_linspace_def Let_def lit_175 step_value fmul_def fadd_def
          signed_zero_def)
  finally show ?thesis .
qed

lemma np_take_inside:
  "list_all (\<lambda>i. i < length xs) idx \<Longrightarrow> np_take xs idx = Inr (map (\<lambda>i. xs ! i) idx)"
  by (simp add: np_take_def)

lemma goodplx_equal_lengths:
  assumes "length obsplx = length errplx"
  shows "goodplx obsplx errplx =
           Inr (filter (\<lambda>i. fge (fdiv (obsplx ! i) (errplx ! i))
                                (fdiv (Fin 1) lk_relative_error_limit))
                  [0..<length obsplx])"
  using assms
  by (auto simp: goodplx_def np_broadcast_def np_where_def intro!: filter_cong)

lemma absMagNaive_inside:
  assumes "list_all (\<lambda>i. i < length obsplx) good" "length obsmag = length obsplx"
  shows "absMagNaive np obsplx obsmag good =
           Inr (map (\<lambda>i. fsub (fadd (obsmag ! i) (fmul (Fin 5) (np_log10 np (obsplx ! i))))
                            (Fin 10))
                  good)"
proof -
  have "map (\<lambda>v. fsub v (Fin 10))
          (map2 fadd (map ((!) obsmag) idx)
             (map (fmul (Fin 5)) (map (np_log10 np) (map ((!) obsplx) idx)))) =
        map (\<lambda>i. fsub (fadd (obsmag ! i) (fmul (Fin 5) (np_log10 np (obsplx ! i)))) (Fin 10)) idx"
    for idx
    by (induction idx) simp_all
  then show ?thesis
    using assms by (simp add: absMagNaive_def np_take_inside)
qed

lemma interp1d_indices:
  "interp1d np xs ys (map g idx) =
     (if list_ex (\<lambda>i. flt (g i) (hd xs)) idx then Inl ValueError_below_range
      else if list_ex (\<lambda>i. fgt (g i) (last xs)) idx then Inl ValueError_above_range
      else Inr (map (\<lambda>i. spline_quadratic np xs ys (g i)) idx))"
  by (simp add: interp1d_def list_ex_iff comp_def)

lemma absMagNaiveCorrected_inside:
  assumes "list_all (\<lambda>i. i < length obsplx) good" "length errplx = length obsplx"
  shows "absMagNaiveCorrected np obsplx errplx (map n good) good =
           (if list_ex (\<lambda>i. flt (fdiv (errplx ! i) (obsplx ! i)) (Fin 0)) good
            then Inl ValueError_below_range
            else if list_ex (\<lambda>i. fgt (fdiv (errplx ! i) (obsplx ! i)) lk_relative_error_limit) good
            then Inl ValueError_above_range
            else Inr (map (\<lambda>i. fadd (n i)
                            (spline_quadratic np lk_grid lk_table (fdiv (errplx ! i) (obsplx ! i))))
                        good))"
proof -
  have rel: "map2 fdiv (map ((!) errplx) idx) (map ((!) obsplx) idx) =
             map (\<lambda>i. fdiv (errplx ! i) (obsplx ! i)) idx" for idx
    by (induction idx) simp_all
  have add: "map2 fadd (map n idx) (map c idx) = map (\<lambda>i. fadd (n i) (c i)) idx"
    for c :: "nat \<Rightarrow> f64" and idx
    by (induction idx) simp_all
  show ?thesis
    using assms
    by (simp add: absMagNaiveCorrected_def np_take_inside rel lk_correction_def interp1d_indices
          lk_grid_hd lk_grid_last add)
qed

text \<open>
  What \<^verbatim>\<open>naive_lum_estimate\<close> does on arrays with one entry per star: \<open>good\<close> are the stars
  that pass the cut of line 38.
\<close>

lemma naive_lum_estimate_equal_lengths:
  assumes "length errplx = length obsplx" "length obsmag = length obsplx"
      and "good = filter (\<lambda>i. fge (fdiv (obsplx ! i) (errplx ! i))
                               (fdiv (Fin 1) lk_relative_error_limit)) [0..<length obsplx]"
      and "naive = map (\<lambda>i. fsub (fadd (obsmag ! i) (fmul (Fin 5) (np_log10 np (obsplx ! i))))
                               (Fin 10)) good"
  shows "naive_lum_estimate np obsplx errplx obsmag errmag =
           (if 3 \<le> length good then
              if list_ex (\<lambda>i. flt (fdiv (errplx ! i) (obsplx ! i)) (Fin 0)) good
              then Inl ValueError_below_range
              else if list_ex (\<lambda>i. fgt (fdiv (errplx ! i) (obsplx ! i)) lk_relative_error_limit) good
              then Inl ValueError_above_range
              else Inr [''Number of 'good' parallaxes used '' @ show_nat (length good) @ ''/''
                          @ show_nat (length obsplx),
                        ''### Naive estimate ###'',
                        mean_and_sigma np naive,
                        ''### Naive estimate after LK correction ###'',
                        mean_and_sigma np
                          (map (\<lambda>i. fadd (fsub (fadd (obsmag ! i)
                                                 (fmul (Fin 5) (np_log10 np (obsplx ! i)))) (Fin 10))
                                        (spline_quadratic np lk_grid lk_table
                                           (fdiv (errplx ! i) (obsplx ! i))))
                             good)]
            else Inr [''Cannot make naive estimate''])"
proof -
  have inside: "list_all (\<lambda>i. i < length obsplx) good"
    using assms(3) by (simp add: list_all_iff)
  have sel: "goodplx obsplx errplx = Inr good"
    using assms(1,3) by (simp add: goodplx_equal_lengths)
  show ?thesis
    unfolding naive_lum_estimate_def sel assms(4)
    using inside assms(1,2)
    by (simp add: absMagNaive_inside absMagNaiveCorrected_inside)
qed




text \<open>
  Three stars with parallax \<open>17.142857142857142\<close> and error \<open>3.0\<close>: all pass the cut.
\<close>

lemma boundary_good:
  "filter (\<lambda>i. fge (fdiv ([plx_17_14, plx_17_14, plx_17_14] ! i) ([Fin 3, Fin 3, Fin 3] ! i))
                  (fdiv (Fin 1) lk_relative_error_limit))
     [0..<length [plx_17_14, plx_17_14, plx_17_14]] = [0, 1, 2]"
proof -
  have "[0..<length [plx_17_14, plx_17_14, plx_17_14]] = [0, 1, 2]"
    by (simp add: upt_rec)
  then show ?thesis
    by (simp add: limit_value inverse_limit_value div_17_3 fge_def flt_def)
qed



section \<open>Traces of the driver\<close>

lemma observe_append [simp]:
  "sampling_calls (xs @ ys) = sampling_calls xs @ sampling_calls ys"
  "loaded_models (xs @ ys) = loaded_models xs @ loaded_models ys"
  "cached_models (xs @ ys) = cached_models xs @ cached_models ys"
  "plots (xs @ ys) = plots xs @ plots ys"
  "naive_calls (xs @ ys) = naive_calls xs @ naive_calls ys"
  "uniform_calls (xs @ ys) = uniform_calls xs @ uniform_calls ys"
  by (simp_all add: sampling_calls_def loaded_models_def cached_models_def plots_def
        naive_calls_def uniform_calls_def)

lemma observe_Nil [simp]:
  "sampling_calls [] = []" "loaded_models [] = []" "cached_models [] = []" "plots [] = []"
  "naive_calls [] = []" "uniform_calls [] = []"
  by (simp_all add: sampling_calls_def loaded_models_def cached_models_def plots_def
        naive_calls_def uniform_calls_def)

lemma observe_Cons [simp]:
  "sampling_calls (ev # tr) = sampling_of ev @ sampling_calls tr"
  "loaded_models (ev # tr) = loaded_of ev @ loaded_models tr"
  "cached_models (ev # tr) = cached_of ev @ cached_models tr"
  "plots (ev # tr) = (if is_plot ev then ev # plots tr else plots tr)"
  "naive_calls (ev # tr) = naive_call_of ev @ naive_calls tr"
  "uniform_calls (ev # tr) = uniform_of ev @ uniform_calls tr"
  by (simp_all add: sampling_calls_def loaded_models_def cached_models_def plots_def
        naive_calls_def uniform_calls_def)

lemma observe_prints [simp]:
  "sampling_calls (map Print ps) = []" "loaded_models (map Print ps) = []"
  "cached_models (map Print ps) = []" "plots (map Print ps) = []"
  "naive_calls (map Print ps) = []" "uniform_calls (map Print ps) = []"
  by (induction ps) simp_all

lemma observe_draws [simp]:
  "sampling_calls (map (\<lambda>i. Random_uniform lo hi n) idx) = []"
  "loaded_models (map (\<lambda>i. Random_uniform lo hi n) idx) = []"
  "cached_models (map (\<lambda>i. Random_uniform lo hi n) idx) = []"
  "plots (map (\<lambda>i. Random_uniform lo hi n) idx) = []"
  "naive_calls (map (\<lambda>i. Random_uniform lo hi n) idx) = []"
  "uniform_calls (map (\<lambda>i. Random_uniform lo hi n) idx) = replicate (length idx) (lo, hi, n)"
  by (induction idx) simp_all

lemma observe_survey_trace [simp]:
  "sampling_calls (survey_trace a) = []" "loaded_models (survey_trace a) = []"
  "cached_models (survey_trace a) = []" "plots (survey_trace a) = []"
  "naive_calls (survey_trace a) = []" "uniform_calls (survey_trace a) = []"
  by (simp_all add: survey_trace_def)

lemma observe_survey_plot_trace [simp]:
  "sampling_calls (survey_plot_trace a) = []" "loaded_models (survey_plot_trace a) = []"
  "cached_models (survey_plot_trace a) = []"
  "plots (survey_plot_trace a) = survey_plot_trace a"
  "naive_calls (survey_plot_trace a) = []" "uniform_calls (survey_plot_trace a) = []"
  by (simp_all add: survey_plot_trace_def)

text \<open>The loop of lines 100 to 102 makes all its draws, or stops at the first.\<close>

lemma initial_values_loop_returns:
  assumes "uniform_error lo hi n = None"
  shows "initial_values_loop w lo hi n idx =
           (map (\<lambda>i. Random_uniform lo hi n) idx,
            Inr (map (\<lambda>i. [(''absMag'', random_uniform w i lo hi n)]) idx))"
  using assms by (induction idx) (simp_all add: np_random_uniform_def)

lemma initial_values_loop_raises:
  assumes "uniform_error lo hi n = Some e" "idx \<noteq> []"
  shows "initial_values_loop w lo hi n idx = ([Random_uniform lo hi n], Inl e)"
  using assms by (cases idx) (simp_all add: np_random_uniform_def)

lemma chains_nonempty: "[0..<numChains] \<noteq> []"
  by (simp add: numChains_def)

text \<open>The sampling stage: it ends with the one call of the sampler, or at line 101.\<close>

lemma sampling_trace_returns:
  assumes "draw_error np a sv = None"
  shows "sampling_trace np w a sv =
           ((if volumecomplete a then []
             else map (\<lambda>i. Random_uniform (initLow np a sv) (maxPossibleAbsMag np a sv)
                              (numberOfStarsInSurvey sv)) [0..<numChains])
            @ [Load_stan_code
                 (if volumecomplete a
                  then ''luminosity_inference_volume_complete_distance_prior.stan''
                  else ''luminosity_inference_distance_prior.stan''),
               Stan_cache
                 (stan_code w (if volumecomplete a
                               then ''luminosity_inference_volume_complete_distance_prior.stan''
                               else ''luminosity_inference_distance_prior.stan''))
                 (if volumecomplete a then ''luminosityInferenceDistPriorVC''
                  else ''luminosityInferenceDistPrior''),
               Sampling
                 \<lparr>sm_code = stan_code w
                              (if volumecomplete a
                               then ''luminosity_inference_volume_complete_distance_prior.stan''
                               else ''luminosity_inference_distance_prior.stan''),
                  sm_name = (if volumecomplete a then ''luminosityInferenceDistPriorVC''
                             else ''luminosityInferenceDistPrior''),
                  s_data = stan_data a sv, s_pars = [''meanAbsMag'', ''sigmaAbsMag''],
                  s_iter = staniter a, s_chains = int numChains, s_thin = stanthin a,
                  s_seed = stanseed a,
                  s_init =
                    (if volumecomplete a then None
                     else Some (map (\<lambda>i. [(''absMag'',
                                             random_uniform w i (initLow np a sv)
                                               (maxPossibleAbsMag np a sv)
                                               (numberOfStarsInSurvey sv))])
                                  [0..<numChains]))\<rparr>],
            Inr ())"
  using assms
  by (simp add: sampling_trace_def draw_error_def initialValuesList_def
        initial_values_loop_returns split: if_splits)

lemma sampling_trace_raises:
  assumes "draw_error np a sv = Some e"
  shows "sampling_trace np w a sv =
           ([Random_uniform (initLow np a sv) (maxPossibleAbsMag np a sv)
               (numberOfStarsInSurvey sv)], Inl e)"
proof -
  from assms have vc: "\<not> volumecomplete a"
    and err: "uniform_error (initLow np a sv) (maxPossibleAbsMag np a sv)
                (numberOfStarsInSurvey sv) = Some e"
    by (simp_all add: draw_error_def split: if_splits)
  show ?thesis
    using vc initial_values_loop_raises [OF err chains_nonempty, of w]
    by (simp add: sampling_trace_def initialValuesList_def)
qed

lemma observe_corner_trace [simp]:
  "sampling_calls (corner_trace a smp) = []" "loaded_models (corner_trace a smp) = []"
  "cached_models (corner_trace a smp) = []"
  "naive_calls (corner_trace a smp) = []" "uniform_calls (corner_trace a smp) = []"
  "plots (corner_trace a smp) =
     (if noplots a then []
      else [Corner smp [''$'' @ [CHR 0x5C] @ ''mu_M$'', ''$'' @ [CHR 0x5C] @ ''sigma_M$'']
              [muM a, sigmaM a] ''r'' [lit (16 / 100), lit (50 / 100), lit (84 / 100)] True])"
  by (simp_all add: corner_trace_def upt_rec)

lemma samples_of_trace:
  "fst (samples_of w) = [Fit_extract] \<or> fst (samples_of w) = [Fit_extract, Fit_extract]"
  by (simp add: samples_of_def split: sum.splits)

lemma observe_samples_of [simp]:
  "sampling_calls (fst (samples_of w)) = []" "loaded_models (fst (samples_of w)) = []"
  "cached_models (fst (samples_of w)) = []" "plots (fst (samples_of w)) = []"
  "naive_calls (fst (samples_of w)) = []" "uniform_calls (fst (samples_of w)) = []"
  using samples_of_trace [of w] by auto

text \<open>The three ways the report ends.\<close>

lemma report_cases [case_names naive_raises extract_raises completes]:
  obtains
    e where
      "naive_lum_estimate np (observedParallaxes sv) (parallaxErrors sv) (observedMagnitudes sv)
         (magnitudeErrors sv) = Inl e"
      "report np w a sv =
         ([Print [], Print_fit, Print [],
           Call_naive_lum_estimate (observedParallaxes sv) (parallaxErrors sv)
             (observedMagnitudes sv) (magnitudeErrors sv)], Inl e)"
  | printed e where
      "naive_lum_estimate np (observedParallaxes sv) (parallaxErrors sv) (observedMagnitudes sv)
         (magnitudeErrors sv) = Inr printed"
      "snd (samples_of w) = Inl e"
      "report np w a sv =
         ([Print [], Print_fit, Print [],
           Call_naive_lum_estimate (observedParallaxes sv) (parallaxErrors sv)
             (observedMagnitudes sv) (magnitudeErrors sv)]
          @ map Print printed @ fst (samples_of w), Inl e)"
  | printed samples where
      "naive_lum_estimate np (observedParallaxes sv) (parallaxErrors sv) (observedMagnitudes sv)
         (magnitudeErrors sv) = Inr printed"
      "snd (samples_of w) = Inr samples"
      "report np w a sv =
         ([Print [], Print_fit, Print [],
           Call_naive_lum_estimate (observedParallaxes sv) (parallaxErrors sv)
             (observedMagnitudes sv) (magnitudeErrors sv)]
          @ map Print printed @ fst (samples_of w) @ corner_trace a samples, Inr samples)"
proof (cases "naive_lum_estimate np (observedParallaxes sv) (parallaxErrors sv)
                (observedMagnitudes sv) (magnitudeErrors sv)")
  case (Inl e)
  then show ?thesis
    using that(1) by (simp add: report_def)
next
  case (Inr printed)
  obtain ex r where split: "samples_of w = (ex, r)"
    by (cases "samples_of w")
  show ?thesis
  proof (cases r)
    case (Inl e)
    with Inr split show ?thesis
      using that(2) [of printed e] by (simp add: report_def)
  next
    case right: (Inr samples)
    with Inr split show ?thesis
      using that(3) [of printed samples] by (simp add: report_def)
  qed
qed

lemma observe_report [simp]:
  "sampling_calls (fst (report np w a sv)) = []"
  "loaded_models (fst (report np w a sv)) = []"
  "cached_models (fst (report np w a sv)) = []"
  "uniform_calls (fst (report np w a sv)) = []"
  "naive_calls (fst (report np w a sv)) =
     [(observedParallaxes sv, parallaxErrors sv, observedMagnitudes sv, magnitudeErrors sv)]"
  "plots (fst (report np w a sv)) =
     (case snd (report np w a sv) of Inl e \<Rightarrow> [] | Inr samples \<Rightarrow> plots (corner_trace a samples))"
proof -
  show "sampling_calls (fst (report np w a sv)) = []"
    by (cases rule: report_cases [of np sv w a]) simp_all
  show "loaded_models (fst (report np w a sv)) = []"
    by (cases rule: report_cases [of np sv w a]) simp_all
  show "cached_models (fst (report np w a sv)) = []"
    by (cases rule: report_cases [of np sv w a]) simp_all
  show "uniform_calls (fst (report np w a sv)) = []"
    by (cases rule: report_cases [of np sv w a]) simp_all
  show "naive_calls (fst (report np w a sv)) =
     [(observedParallaxes sv, parallaxErrors sv, observedMagnitudes sv, magnitudeErrors sv)]"
    by (cases rule: report_cases [of np sv w a]) simp_all
  show "plots (fst (report np w a sv)) =
     (case snd (report np w a sv) of Inl e \<Rightarrow> [] | Inr samples \<Rightarrow> plots (corner_trace a samples))"
    by (cases rule: report_cases [of np sv w a]) simp_all
qed

lemma run_zero:
  assumes "is_zero (distMax a) \<or> is_zero (distMin a)"
  shows "run_luminosity_inference np w a = ([], Inl ZeroDivisionError)"
  using assms by (auto simp: run_luminosity_inference_def py_truediv_def)

lemma run_draw_raises:
  assumes "\<not> is_zero (distMax a)" "\<not> is_zero (distMin a)"
    and "draw_error np a (generated_survey w) = Some e"
  shows "run_luminosity_inference np w a =
           (survey_trace a @ survey_plot_trace a
              @ [Random_uniform (initLow np a (generated_survey w))
                   (maxPossibleAbsMag np a (generated_survey w))
                   (numberOfStarsInSurvey (generated_survey w))],
            Inl e)"
  using assms(1,2) sampling_trace_raises [OF assms(3), of w]
  by (simp add: run_luminosity_inference_def py_truediv_def Let_def)

lemma run_nonzero:
  assumes "\<not> is_zero (distMax a)" "\<not> is_zero (distMin a)"
    and "draw_error np a (generated_survey w) = None"
  shows "run_luminosity_inference np w a =
           (survey_trace a @ survey_plot_trace a
              @ fst (sampling_trace np w a (generated_survey w))
              @ fst (report np w a (generated_survey w)),
            snd (report np w a (generated_survey w)))"
  using assms(1,2) sampling_trace_returns [OF assms(3), of w]
  by (simp add: run_luminosity_inference_def py_truediv_def Let_def split: prod.splits)

text \<open>What the sampling stage of a run without a failing draw calls.\<close>

lemma sampling_calls_sampling_trace:
  assumes "draw_error np a sv = None"
  shows "sampling_calls (fst (sampling_trace np w a sv)) =
     [\<lparr>sm_code = stan_code w
                  (if volumecomplete a
                   then ''luminosity_inference_volume_complete_distance_prior.stan''
                   else ''luminosity_inference_distance_prior.stan''),
       sm_name = (if volumecomplete a then ''luminosityInferenceDistPriorVC''
                  else ''luminosityInferenceDistPrior''),
       s_data = stan_data a sv, s_pars = [''meanAbsMag'', ''sigmaAbsMag''],
       s_iter = staniter a, s_chains = int numChains, s_thin = stanthin a,
       s_seed = stanseed a,
       s_init =
         (if volumecomplete a then None
          else Some (map (\<lambda>i. [(''absMag'',
                                  random_uniform w i (initLow np a sv)
                                    (maxPossibleAbsMag np a sv)
                                    (numberOfStarsInSurvey sv))])
                       [0..<numChains]))\<rparr>]"
  by (simp add: sampling_trace_returns [OF assms])

lemma observe_sampling_trace:
  assumes "draw_error np a sv = None"
  shows "loaded_models (fst (sampling_trace np w a sv)) =
           [if volumecomplete a then ''luminosity_inference_volume_complete_distance_prior.stan''
            else ''luminosity_inference_distance_prior.stan'']"
    and "cached_models (fst (sampling_trace np w a sv)) =
           [if volumecomplete a
            then (stan_code w ''luminosity_inference_volume_complete_distance_prior.stan'',
                  ''luminosityInferenceDistPriorVC'')
            else (stan_code w ''luminosity_inference_distance_prior.stan'',
                  ''luminosityInferenceDistPrior'')]"
    and "plots (fst (sampling_trace np w a sv)) = []"
    and "naive_calls (fst (sampling_trace np w a sv)) = []"
    and "uniform_calls (fst (sampling_trace np w a sv)) =
           (if volumecomplete a then []
            else replicate numChains
                   (initLow np a sv, maxPossibleAbsMag np a sv, numberOfStarsInSurvey sv))"
  by (simp_all add: sampling_trace_returns [OF assms])


text \<open>A run in which the sampler is called is a run that passed lines 65, 66 and 101.\<close>

lemma run_sampling_calls:
  "sampling_calls (fst (run_luminosity_inference np w a)) =
     (if is_zero (distMax a) \<or> is_zero (distMin a) then []
      else case draw_error np a (generated_survey w) of
             Some e \<Rightarrow> []
           | None \<Rightarrow> sampling_calls (fst (sampling_trace np w a (generated_survey w))))"
proof (cases "is_zero (distMax a) \<or> is_zero (distMin a)")
  case True
  then show ?thesis
    by (simp add: run_zero)
next
  case False
  then show ?thesis
    by (cases "draw_error np a (generated_survey w)")
       (simp_all add: run_nonzero run_draw_raises)
qed

lemma sampling_call_made:
  assumes "s \<in> set (sampling_calls (fst (run_luminosity_inference np w a)))"
  shows "\<not> is_zero (distMax a)" and "\<not> is_zero (distMin a)"
    and "draw_error np a (generated_survey w) = None"
    and "s \<in> set (sampling_calls (fst (sampling_trace np w a (generated_survey w))))"
  using assms
  by (auto simp: run_sampling_calls split: if_splits option.splits)




text \<open>A limit that is not finite makes the first draw raise.\<close>

lemma fadd_not_finite: "\<not> is_finite a \<Longrightarrow> \<not> is_finite (fadd a b)"
  by (cases a; cases b) (simp_all add: is_finite_def fadd_def)

lemma fsub_not_finite: "\<not> is_finite a \<Longrightarrow> \<not> is_finite (fsub a b)"
  by (cases a; cases b) (simp_all add: is_finite_def fsub_def fadd_def)

text \<open>
  The demonstration run: the limit \<open>L = 12 - 5 * 2 + 5 = 7\<close>, the draws on \<open>[3, 7]\<close>, of
  range 4.
\<close>

lemma log_terms: "fadd (fsub (Fin 12) (fmul (Fin 5) (Fin 2))) (Fin 5) = Fin 7"
  by code_simp

lemma low_value: "fsub (Fin 7) (Fin 4) = Fin 3"
  by code_simp

lemma range_value: "fsub (Fin 7) (Fin 3) = Fin 4"
  by code_simp

lemma demo_nonzero:
  "\<not> is_zero (distMax demo_args)" "\<not> is_zero (distMin demo_args)"
  "\<not> volumecomplete demo_args"
  by (simp_all add: demo_args_def default_args_def)

lemma demo_limit:
  "fadd (fsub (Fin 12) (fmul (Fin 5) (np_log10 demo_numpy (distMax demo_args)))) (Fin 5) = Fin 7"
  by (simp add: demo_args_def default_args_def demo_numpy_def log_terms)

lemma demo_survey_fields:
  "numberOfStarsInSurvey (generated_survey demo_world) = 3"
  "apparentMagnitudeLimit (generated_survey demo_world) = Fin 12"
  by (simp_all add: demo_world_def demo_survey_def)

lemma demo_bounds:
  "maxPossibleAbsMag demo_numpy demo_args (generated_survey demo_world) = Fin 7"
  "initLow demo_numpy demo_args (generated_survey demo_world) = Fin 3"
  by (simp_all add: initLow_def maxPossibleAbsMag_def demo_survey_fields demo_limit low_value)

lemma demo_draw: "random_uniform demo_world i (Fin 3) (Fin 7) 3 = [Fin 3, Fin 3, Fin 3]"
  by (simp add: demo_world_def numeral_3_eq_3)

lemma demo_draws: "draw_error demo_numpy demo_args (generated_survey demo_world) = None"
  by (simp add: draw_error_def demo_nonzero demo_bounds demo_survey_fields uniform_error_def
        range_value is_finite_def)


lemma demo_run:
  "run_luminosity_inference demo_numpy demo_world demo_args =
     (survey_trace demo_args @ survey_plot_trace demo_args
        @ fst (sampling_trace demo_numpy demo_world demo_args (generated_survey demo_world))
        @ fst (report demo_numpy demo_world demo_args (generated_survey demo_world)),
      snd (report demo_numpy demo_world demo_args (generated_survey demo_world)))"
  using demo_nonzero(1,2) demo_draws by (rule run_nonzero)


text \<open>The demonstration run makes its sampling call and its call of the naive estimator.\<close>

lemma demo_sampling_calls:
  "sampling_calls (fst (run_luminosity_inference demo_numpy demo_world demo_args)) =
     sampling_calls (fst (sampling_trace demo_numpy demo_world demo_args
                            (generated_survey demo_world)))"
  by (simp add: run_sampling_calls demo_nonzero demo_draws)

lemma demo_call_made:
  "hd (sampling_calls (fst (run_luminosity_inference demo_numpy demo_world demo_args)))
     \<in> set (sampling_calls (fst (run_luminosity_inference demo_numpy demo_world demo_args)))"
  by (simp add: demo_sampling_calls sampling_calls_sampling_trace [OF demo_draws])

lemma demo_naive_call_made:
  "([Fin 40, Fin 40, Fin 40], [Fin 1, Fin 1, Fin 1], [Fin 9, Fin 9, Fin 9], [Fin 1, Fin 1, Fin 1])
     \<in> set (naive_calls (fst (run_luminosity_inference demo_numpy demo_world demo_args)))"
  unfolding demo_run
  by (simp add: observe_sampling_trace [OF demo_draws]
        demo_world_def [THEN arg_cong [of _ _ generated_survey]] demo_survey_def)

text \<open>
  A magnitude-limited run on a survey whose limit is not finite, as with the default
  \<^verbatim>\<open>--mlim inf\<close>, stops at its first draw: the range \<open>L - (L - 4)\<close> is not a finite number.
\<close>

lemma unlimited_survey_draw_raises:
  assumes "\<not> volumecomplete a" "\<not> is_finite (apparentMagnitudeLimit sv)"
  shows "draw_error np a sv = Some OverflowError"
proof -
  have "\<not> is_finite (maxPossibleAbsMag np a sv)"
    unfolding maxPossibleAbsMag_def
    by (intro fadd_not_finite fsub_not_finite assms(2))
  then have "\<not> is_finite (fsub (maxPossibleAbsMag np a sv) (initLow np a sv))"
    by (rule fsub_not_finite)
  with assms(1) show ?thesis
    by (simp add: draw_error_def uniform_error_def)
qed

lemma unlimited_run_loads_no_model:
  assumes "\<not> is_zero (distMax a)" "\<not> is_zero (distMin a)"
    and "\<not> volumecomplete a" "\<not> is_finite (apparentMagnitudeLimit (generated_survey w))"
  shows "snd (run_luminosity_inference np w a) = Inl OverflowError"
    and "loaded_models (fst (run_luminosity_inference np w a)) = []"
    and "sampling_calls (fst (run_luminosity_inference np w a)) = []"
  using run_draw_raises [OF assms(1,2) unlimited_survey_draw_raises [OF assms(3,4)]]
  by simp_all

lemma default_run_loads_no_model:
  "mlim default_args = PInf"
  "snd (run_luminosity_inference demo_numpy
          (demo_world\<lparr>generated_survey := demo_survey\<lparr>apparentMagnitudeLimit := PInf\<rparr>\<rparr>)
          default_args) = Inl OverflowError"
  "loaded_models (fst (run_luminosity_inference demo_numpy
          (demo_world\<lparr>generated_survey := demo_survey\<lparr>apparentMagnitudeLimit := PInf\<rparr>\<rparr>)
          default_args)) = []"
  by (simp_all add: unlimited_run_loads_no_model is_finite_def default_args_def)

section \<open>Properties of the naive estimator\<close>

text \<open>
  C9: the result of \<^verbatim>\<open>naive_lum_estimate\<close>, the lines it prints or the exception it raises,
  does not depend on its argument \<^verbatim>\<open>errmag\<close>: two calls that differ only there agree.
\<close>

theorem naive_lum_estimate_ignores_errmag:
  "naive_lum_estimate np obsplx errplx obsmag errmag =
   naive_lum_estimate np obsplx errplx obsmag errmag'"
  by (simp add: naive_lum_estimate_def)



text \<open>
  C8, at the boundary of the cut: three stars with parallax \<open>17.142857142857142\<close> and
  the strictly positive error \<open>3.0\<close> are all selected, since \<^verbatim>\<open>obsplx/errplx\<close> rounds to the
  double \<^verbatim>\<open>1/0.175\<close>; their relative error \<^verbatim>\<open>errplx/obsplx\<close> rounds to
  \<open>0.17500000000000002\<close>, above the last abscissa of the table, and the interpolation
  raises.
\<close>

theorem naive_lum_estimate_raises_at_boundary:
  "flt (Fin 0) (Fin 3)
   \<and> goodplx [plx_17_14, plx_17_14, plx_17_14] [Fin 3, Fin 3, Fin 3] = Inr [0, 1, 2]
   \<and> fgt (fdiv (Fin 3) plx_17_14) (last lk_grid)
   \<and> naive_lum_estimate np [plx_17_14, plx_17_14, plx_17_14] [Fin 3, Fin 3, Fin 3]
         [Fin 9, Fin 9, Fin 9] errmag = Inl ValueError_above_range"
proof -
  have "length [plx_17_14, plx_17_14, plx_17_14] = length [Fin 3, Fin 3, Fin 3 :: f64]"
    by simp
  from goodplx_equal_lengths [OF this]
  have sel: "goodplx [plx_17_14, plx_17_14, plx_17_14] [Fin 3, Fin 3, Fin 3] = Inr [0, 1, 2]"
    unfolding boundary_good .
  have above: "fgt (fdiv (Fin 3) plx_17_14) (last lk_grid)"
    by (simp add: lk_grid_last limit_value div_3_17 fgt_def flt_def)
  have "naive_lum_estimate np [plx_17_14, plx_17_14, plx_17_14] [Fin 3, Fin 3, Fin 3]
          [Fin 9, Fin 9, Fin 9] errmag = Inl ValueError_above_range"
    by (subst naive_lum_estimate_equal_lengths [OF _ _ boundary_good [symmetric] refl])
       (simp_all add: div_3_17 limit_value flt_def fgt_def)
  with sel above show ?thesis
    by (simp add: flt_def)
qed

section \<open>Properties of the driver\<close>

text \<open>
  C2, as the code has it: a run loads a model exactly when its distance bounds are both
  non-zero and no draw of the initial values raises at line 101 (none is made when the flag
  \<^verbatim>\<open>volumecomplete\<close> is set). It then loads exactly one model file, the volume-complete
  one with the model name \<open>luminosityInferenceDistPriorVC\<close> when the flag is set and the
  magnitude-limited one with the name \<open>luminosityInferenceDistPrior\<close> otherwise; the
  text read from that file is what is cached under that name and sampled. A run with a zero
  distance bound, or whose first draw raises, loads none.
\<close>

theorem run_selects_model:
  "loaded_models (fst (run_luminosity_inference np w a)) =
     (if is_zero (distMax a) \<or> is_zero (distMin a) then []
      else case draw_error np a (generated_survey w) of
             Some e \<Rightarrow> []
           | None \<Rightarrow>
               [if volumecomplete a
                then ''luminosity_inference_volume_complete_distance_prior.stan''
                else ''luminosity_inference_distance_prior.stan''])
   \<and> map snd (cached_models (fst (run_luminosity_inference np w a))) =
     (if is_zero (distMax a) \<or> is_zero (distMin a) then []
      else case draw_error np a (generated_survey w) of
             Some e \<Rightarrow> []
           | None \<Rightarrow>
               [if volumecomplete a then ''luminosityInferenceDistPriorVC''
                else ''luminosityInferenceDistPrior''])
   \<and> map fst (cached_models (fst (run_luminosity_inference np w a))) =
       map (stan_code w) (loaded_models (fst (run_luminosity_inference np w a)))
   \<and> map (\<lambda>s. (sm_code s, sm_name s)) (sampling_calls (fst (run_luminosity_inference np w a))) =
       cached_models (fst (run_luminosity_inference np w a))
   \<and> snd (run_luminosity_inference np w a) =
       (if is_zero (distMax a) \<or> is_zero (distMin a) then Inl ZeroDivisionError
        else case draw_error np a (generated_survey w) of
               Some e \<Rightarrow> Inl e
             | None \<Rightarrow> snd (report np w a (generated_survey w)))"
proof (cases "is_zero (distMax a) \<or> is_zero (distMin a)")
  case True
  then show ?thesis
    by (simp add: run_zero)
next
  case False
  show ?thesis
  proof (cases "draw_error np a (generated_survey w)")
    case None
    with False show ?thesis
      by (simp add: run_nonzero observe_sampling_trace [OF None]
            sampling_calls_sampling_trace [OF None])
  next
    case (Some e)
    with False show ?thesis
      by (simp add: run_draw_raises)
  qed
qed

text \<open>
  The run of \<^verbatim>\<open>--nstars 3 --mlim 12 --staniter 2 --stanthin 1\<close> loads the magnitude-limited
  model, and with \<^verbatim>\<open>--volumecomplete\<close> added the volume-complete one.
\<close>

theorem run_selects_model_witness:
  "loaded_models (fst (run_luminosity_inference demo_numpy demo_world demo_args)) =
     [''luminosity_inference_distance_prior.stan'']
   \<and> map snd (cached_models (fst (run_luminosity_inference demo_numpy demo_world demo_args))) =
     [''luminosityInferenceDistPrior'']
   \<and> loaded_models (fst (run_luminosity_inference demo_numpy demo_world
                           (demo_args\<lparr>volumecomplete := True\<rparr>))) =
     [''luminosity_inference_volume_complete_distance_prior.stan'']
   \<and> map snd (cached_models (fst (run_luminosity_inference demo_numpy demo_world
                                     (demo_args\<lparr>volumecomplete := True\<rparr>)))) =
     [''luminosityInferenceDistPriorVC'']"
  using run_selects_model [of demo_numpy demo_world demo_args]
        run_selects_model [of demo_numpy demo_world "demo_args\<lparr>volumecomplete := True\<rparr>"]
        demo_nonzero demo_draws
  by (simp add: draw_error_def)

text \<open>
  The run of \<^verbatim>\<open>--distMax 0\<close> stops at line 65 with \<^verbatim>\<open>ZeroDivisionError\<close> and has loaded no
  model.
\<close>

theorem run_selects_model_counterexample:
  "loaded_models (fst (run_luminosity_inference demo_numpy demo_world
                         (default_args\<lparr>distMax := Fin 0\<rparr>))) = []
   \<and> snd (run_luminosity_inference demo_numpy demo_world (default_args\<lparr>distMax := Fin 0\<rparr>))
       = Inl ZeroDivisionError"
  by (simp add: run_zero)








text \<open>
  C6, as the code has it: with \<^verbatim>\<open>noplots\<close> set no plot is drawn. With \<^verbatim>\<open>noplots\<close> unset
  and non-zero distance bounds, the survey statistics are plotted exactly when
  \<^verbatim>\<open>surveyplot\<close> is set, and the corner plot of \<^verbatim>\<open>samples\<close> is drawn exactly when the run
  reaches its end. A run with a zero distance bound draws nothing.
\<close>

theorem plots_follow_flags:
  "plots (fst (run_luminosity_inference np w a)) =
     (if noplots a \<or> is_zero (distMax a) \<or> is_zero (distMin a) then []
      else (if surveyplot a then [Show_survey_statistics ''surveyStats.pdf'' False] else [])
           @ (case snd (run_luminosity_inference np w a) of
                Inl e \<Rightarrow> []
              | Inr samples \<Rightarrow>
                  [Corner samples [''$'' @ [CHR 0x5C] @ ''mu_M$'', ''$'' @ [CHR 0x5C] @ ''sigma_M$'']
                     [muM a, sigmaM a] ''r'' [lit (16 / 100), lit (50 / 100), lit (84 / 100)]
                     True]))"
proof (cases "is_zero (distMax a) \<or> is_zero (distMin a)")
  case True
  then show ?thesis
    by (simp add: run_zero)
next
  case False
  show ?thesis
  proof (cases "draw_error np a (generated_survey w)")
    case None
    with False show ?thesis
      by (simp add: run_nonzero observe_sampling_trace [OF None] survey_plot_trace_def
            split: sum.splits)
  next
    case (Some e)
    with False show ?thesis
      by (simp add: run_draw_raises survey_plot_trace_def)
  qed
qed

text \<open>
  The run of \<^verbatim>\<open>--surveyplot --distMax 0\<close> stops at line 65 and has drawn neither plot.
\<close>

theorem plots_follow_flags_counterexample:
  "surveyplot (default_args\<lparr>surveyplot := True, distMax := Fin 0\<rparr>)
   \<and> \<not> noplots (default_args\<lparr>surveyplot := True, distMax := Fin 0\<rparr>)
   \<and> plots (fst (run_luminosity_inference demo_numpy demo_world
                     (default_args\<lparr>surveyplot := True, distMax := Fin 0\<rparr>))) = []"
  by (simp add: run_zero default_args_def)

text \<open>
  C7: the four arrays passed to \<^verbatim>\<open>naive_lum_estimate\<close> are the arrays of the generated survey
  that the sampler's dictionary holds under \<open>obsPlx\<close>, \<open>errObsPlx\<close>, \<open>obsMag\<close> and
  \<open>errObsMag\<close>.
\<close>

theorem estimator_and_sampler_share_arrays:
  assumes "s \<in> set (sampling_calls (fst (run_luminosity_inference np w a)))"
      and "(obsplx, errplx, obsmag, errmag)
             \<in> set (naive_calls (fst (run_luminosity_inference np w a)))"
  shows "map_of (s_data s) ''obsPlx'' = Some (PyArray obsplx)
         \<and> map_of (s_data s) ''errObsPlx'' = Some (PyArray errplx)
         \<and> map_of (s_data s) ''obsMag'' = Some (PyArray obsmag)
         \<and> map_of (s_data s) ''errObsMag'' = Some (PyArray errmag)
         \<and> obsplx = observedParallaxes (generated_survey w)
         \<and> errplx = parallaxErrors (generated_survey w)
         \<and> obsmag = observedMagnitudes (generated_survey w)
         \<and> errmag = magnitudeErrors (generated_survey w)"
proof -
  from sampling_call_made [OF assms(1)]
  have nz: "\<not> is_zero (distMax a)" "\<not> is_zero (distMin a)"
    and draws: "draw_error np a (generated_survey w) = None"
    and "s \<in> set (sampling_calls (fst (sampling_trace np w a (generated_survey w))))"
    by simp_all
  then have "s_data s = stan_data a (generated_survey w)"
    by (simp add: sampling_calls_sampling_trace)
  moreover from nz draws assms(2) have
    "obsplx = observedParallaxes (generated_survey w)" "errplx = parallaxErrors (generated_survey w)"
    "obsmag = observedMagnitudes (generated_survey w)" "errmag = magnitudeErrors (generated_survey w)"
    by (simp_all add: run_nonzero observe_sampling_trace)
  ultimately show ?thesis
    by (simp add: stan_data_def)
qed

theorem estimator_and_sampler_share_arrays_witness:
  "hd (sampling_calls (fst (run_luminosity_inference demo_numpy demo_world demo_args)))
     \<in> set (sampling_calls (fst (run_luminosity_inference demo_numpy demo_world demo_args)))
   \<and> ([Fin 40, Fin 40, Fin 40], [Fin 1, Fin 1, Fin 1], [Fin 9, Fin 9, Fin 9], [Fin 1, Fin 1, Fin 1])
     \<in> set (naive_calls (fst (run_luminosity_inference demo_numpy demo_world demo_args)))
   \<and> map_of (s_data (hd (sampling_calls (fst (run_luminosity_inference demo_numpy demo_world demo_args))))) ''obsPlx'' = Some (PyArray [Fin 40, Fin 40, Fin 40])
   \<and> map_of (s_data (hd (sampling_calls (fst (run_luminosity_inference demo_numpy demo_world demo_args))))) ''errObsPlx'' = Some (PyArray [Fin 1, Fin 1, Fin 1])
   \<and> map_of (s_data (hd (sampling_calls (fst (run_luminosity_inference demo_numpy demo_world demo_args))))) ''obsMag'' = Some (PyArray [Fin 9, Fin 9, Fin 9])
   \<and> map_of (s_data (hd (sampling_calls (fst (run_luminosity_inference demo_numpy demo_world demo_args))))) ''errObsMag'' = Some (PyArray [Fin 1, Fin 1, Fin 1])"
  using estimator_and_sampler_share_arrays [OF demo_call_made demo_naive_call_made]
        demo_call_made demo_naive_call_made
  by simp

text \<open>
  C10: every sampling call runs four chains. In the magnitude-limited case it is given one
  dictionary of initial values per chain, each holding under \<open>absMag\<close> the result of a
  call of its own to \<^verbatim>\<open>np.random.uniform(L - 4, L, size=N)\<close>, where
  \<open>L = surveyLimit - 5*log10(distMax) + 5\<close> and \<open>N\<close> is the survey's number of stars; in
  the volume-complete case no initial values are passed and nothing is drawn.
\<close>

theorem sampler_chains_and_initial_values:
  assumes "s \<in> set (sampling_calls (fst (run_luminosity_inference np w a)))"
      and "sv = generated_survey w"
      and "L = fadd (fsub (apparentMagnitudeLimit sv) (fmul (Fin 5) (np_log10 np (distMax a))))
                 (Fin 5)"
  shows "s_chains s = 4
         \<and> s_init s =
             (if volumecomplete a then None
              else Some (map (\<lambda>i. [(''absMag'',
                                      random_uniform w i (fsub L (Fin 4)) L
                                        (numberOfStarsInSurvey sv))])
                           [0, 1, 2, 3]))
         \<and> uniform_calls (fst (run_luminosity_inference np w a)) =
             (if volumecomplete a then []
              else replicate 4 (fsub L (Fin 4), L, numberOfStarsInSurvey sv))
         \<and> map_of (s_data s) ''surveyLimit'' =
             (if volumecomplete a then None else Some (PyFloat (apparentMagnitudeLimit sv)))
         \<and> map_of (s_data s) ''N'' = Some (PyInt (numberOfStarsInSurvey sv))"
proof -
  from sampling_call_made [OF assms(1)]
  have nz: "\<not> is_zero (distMax a)" "\<not> is_zero (distMin a)"
    and draws: "draw_error np a sv = None"
    and made: "s \<in> set (sampling_calls (fst (sampling_trace np w a sv)))"
    by (simp_all add: assms(2))
  have chains: "[0..<numChains] = [0, 1, 2, 3]"
    by (simp add: numChains_def upt_rec)
  from made have call:
    "s_chains s = int numChains" "s_data s = stan_data a sv"
    "s_init s =
       (if volumecomplete a then None
        else Some (map (\<lambda>i. [(''absMag'',
                                random_uniform w i (initLow np a sv) (maxPossibleAbsMag np a sv)
                                  (numberOfStarsInSurvey sv))])
                     [0..<numChains]))"
    by (simp_all add: sampling_calls_sampling_trace [OF draws])
  have "uniform_calls (fst (run_luminosity_inference np w a)) =
          (if volumecomplete a then []
           else replicate numChains (initLow np a sv, maxPossibleAbsMag np a sv,
                                     numberOfStarsInSurvey sv))"
    using nz draws observe_sampling_trace [OF draws]
    by (simp add: run_nonzero assms(2))
  moreover have "int numChains = 4" "replicate numChains x = replicate 4 x" for x :: "f64 \<times> f64 \<times> int"
    by (simp_all add: numChains_def)
  ultimately show ?thesis
    using call
    by (simp add: chains initLow_def maxPossibleAbsMag_def assms(3) stan_data_def)
qed

text \<open>
  The run of \<^verbatim>\<open>--nstars 3 --mlim 12 --staniter 2 --stanthin 1\<close>: \<open>L = 7\<close>, four draws on
  \<open>[3, 7]\<close> of three values each.
\<close>

theorem sampler_chains_and_initial_values_witness:
  "hd (sampling_calls (fst (run_luminosity_inference demo_numpy demo_world demo_args)))
     \<in> set (sampling_calls (fst (run_luminosity_inference demo_numpy demo_world demo_args)))
   \<and> \<not> volumecomplete demo_args
   \<and> apparentMagnitudeLimit (generated_survey demo_world) = Fin 12
   \<and> fadd (fsub (Fin 12) (fmul (Fin 5) (np_log10 demo_numpy (distMax demo_args)))) (Fin 5)
       = Fin 7
   \<and> fsub (Fin 7) (Fin 4) = Fin 3
   \<and> s_chains (hd (sampling_calls (fst (run_luminosity_inference demo_numpy demo_world demo_args)))) = 4
   \<and> s_init (hd (sampling_calls (fst (run_luminosity_inference demo_numpy demo_world demo_args)))) =
       Some [[(''absMag'', [Fin 3, Fin 3, Fin 3])], [(''absMag'', [Fin 3, Fin 3, Fin 3])],
             [(''absMag'', [Fin 3, Fin 3, Fin 3])], [(''absMag'', [Fin 3, Fin 3, Fin 3])]]
   \<and> uniform_calls (fst (run_luminosity_inference demo_numpy demo_world demo_args)) =
       replicate 4 (Fin 3, Fin 7, 3)
   \<and> map_of (s_data (hd (sampling_calls (fst (run_luminosity_inference demo_numpy demo_world demo_args))))) ''surveyLimit'' = Some (PyFloat (Fin 12))
   \<and> map_of (s_data (hd (sampling_calls (fst (run_luminosity_inference demo_numpy demo_world demo_args))))) ''N'' = Some (PyInt 3)"
  using sampler_chains_and_initial_values [OF demo_call_made refl refl] demo_call_made
        demo_nonzero
  by (simp add: demo_limit low_value demo_survey_fields demo_draw)

end
